theory Spec2Isabelle
  imports Main
begin

section \<open>Python values and built-ins used by the handlers\<close>

text \<open>
  Python text is modelled as \<open>string\<close>: a list of code points below 256, so \<open>length\<close>
  is Python's \<open>len\<close> on such text. The text decoded from a JSON string literal may
  hold any code point (through \<open>\uXXXX\<close>), so it is a list of code points.
\<close>

type_synonym codepoints = "int list"

definition ustr :: "string \<Rightarrow> codepoints" where
  "ustr s = map of_char s"

text \<open>
  The values \<open>json.loads\<close> builds. A float is kept as the lexeme Python converts
  (\<open>''1.5e3''\<close>, \<open>''NaN''\<close>, \<open>''Infinity''\<close>, \<open>''-Infinity''\<close>); an object keeps its
  pairs in the order parsed, and a later pair with the same key overrides an earlier one,
  as in the \<open>dict\<close> Python builds.
\<close>

datatype json =
    JNull
  | JBool bool
  | JInt int
  | JFloat string
  | JStr codepoints
  | JArr "json list"
  | JObj "(codepoints \<times> json) list"

text \<open>\<open>d.get(key, default)\<close> on the dict built from the pairs.\<close>

definition dict_get :: "(codepoints \<times> json) list \<Rightarrow> string \<Rightarrow> json \<Rightarrow> json" where
  "dict_get pairs key dflt =
     (case map_of (rev pairs) (ustr key) of None \<Rightarrow> dflt | Some v \<Rightarrow> v)"

subsection \<open>\<open>str.strip\<close>, \<open>str.find\<close>, \<open>str.rfind\<close>, slicing\<close>

text \<open>The code points below 256 that Python counts as whitespace.\<close>

definition py_isspace :: "char \<Rightarrow> bool" where
  "py_isspace c =
     (let n = (of_char c :: nat)
      in (9 \<le> n \<and> n \<le> 13) \<or> (28 \<le> n \<and> n \<le> 32) \<or> n = 133 \<or> n = 160)"

definition py_strip :: "string \<Rightarrow> string" where
  "py_strip s = rev (dropWhile py_isspace (rev (dropWhile py_isspace s)))"

text \<open>\<open>s.find(c)\<close> for a one-character \<open>c\<close>: the first index, or \<open>-1\<close>.\<close>

fun str_find :: "char \<Rightarrow> string \<Rightarrow> int" where
  "str_find c [] = - 1"
| "str_find c (x # xs) =
     (if x = c then 0
      else (let r = str_find c xs in if r < 0 then - 1 else r + 1))"

text \<open>\<open>s.rfind(c)\<close>: the last index, or \<open>-1\<close>.\<close>

definition str_rfind :: "char \<Rightarrow> string \<Rightarrow> int" where
  "str_rfind c s =
     (let r = str_find c (rev s) in if r < 0 then - 1 else int (length s) - 1 - r)"

text \<open>\<open>s[start:end]\<close> for \<open>0 \<le> start\<close> and \<open>0 \<le> end\<close>, the only case the handler reaches.\<close>

definition py_slice :: "string \<Rightarrow> int \<Rightarrow> int \<Rightarrow> string" where
  "py_slice s start end = take (nat (end - start)) (drop (nat start) s)"

subsection \<open>\<open>int(text)\<close>\<close>

definition is_digit :: "char \<Rightarrow> bool" where
  "is_digit c = (let n = (of_char c :: nat) in 48 \<le> n \<and> n \<le> 57)"

definition digit_val :: "char \<Rightarrow> int" where
  "digit_val c = of_char c - 48"

text \<open>
  The digits of a decimal literal: digits with single underscores between them. The
  result is the value and the number of digits; \<open>prev\<close> says that the previous character
  was a digit.
\<close>

fun int_digits :: "bool \<Rightarrow> int \<Rightarrow> nat \<Rightarrow> string \<Rightarrow> (int \<times> nat) option" where
  "int_digits prev acc n [] = (if prev then Some (acc, n) else None)"
| "int_digits prev acc n (c # cs) =
     (if is_digit c then int_digits True (acc * 10 + digit_val c) (Suc n) cs
      else if c = CHR ''_'' \<and> prev then int_digits False acc n cs
      else None)"

text \<open>
  \<open>int(s)\<close> in base 10; \<open>None\<close> is \<open>ValueError\<close>. \<open>lim\<close> is the interpreter's
  \<open>int_max_str_digits\<close> (4300 by default, 0 for no limit, absent in old interpreters,
  which behave as 0): a literal with more digits raises \<open>ValueError\<close> too. The
  interpreter looks at the limit only for a literal of more than 640 digits.
\<close>

definition split_sign :: "string \<Rightarrow> bool \<times> string" where
  "split_sign s =
     (case s of
        [] \<Rightarrow> (False, [])
      | c # cs \<Rightarrow>
          if c = CHR ''-'' then (True, cs)
          else if c = CHR ''+'' then (False, cs)
          else (False, s))"

definition py_int :: "nat \<Rightarrow> string \<Rightarrow> int option" where
  "py_int lim s =
     (let (neg, body) = split_sign (py_strip s)
      in case int_digits False 0 0 body of
           None \<Rightarrow> None
         | Some (v, n) \<Rightarrow>
             if 640 < n \<and> 0 < lim \<and> lim < n then None
             else Some (if neg then - v else v))"

subsection \<open>\<open>int(score * 0.3)\<close>: binary64 multiplication, then truncation\<close>

text \<open>
  The literals \<open>0.3\<close> and \<open>0.4\<close> are the binary64 numbers \<open>m / 2 ^ 54\<close> with the
  53-bit significands below. \<open>score * 0.3\<close> converts the integer \<open>score\<close> exactly
  (it is at most 100), and rounds the exact product to 53 significant bits, ties to
  even; \<open>int\<close> then truncates.
\<close>

definition significand_0_3 :: int where
  "significand_0_3 = 5404319552844595"

definition significand_0_4 :: int where
  "significand_0_4 = 7205759403792794"

text \<open>The number of bits of a non-negative integer.\<close>

fun bit_length :: "int \<Rightarrow> nat" where
  "bit_length n = (if n \<le> 0 then 0 else Suc (bit_length (n div 2)))"

declare bit_length.simps [simp del]

text \<open>A non-negative integer rounded to 53 significant bits, ties to even.\<close>

definition round_53 :: "int \<Rightarrow> int" where
  "round_53 p =
     (let e = bit_length p - 53;
          q = p div 2 ^ e;
          r = p mod 2 ^ e
      in if e = 0 then p
         else if 2 ^ (e - 1) < r \<or> (r = 2 ^ (e - 1) \<and> odd q) then (q + 1) * 2 ^ e
         else q * 2 ^ e)"

text \<open>\<open>int(score * c)\<close> for \<open>0 \<le> score\<close> and the constant \<open>c = m / 2 ^ 54\<close>.\<close>

definition int_of_product :: "int \<Rightarrow> int \<Rightarrow> int" where
  "int_of_product score m = round_53 (score * m) div 2 ^ 54"

subsection \<open>\<open>json.loads\<close>\<close>

text \<open>
  \<open>json.loads\<close> with its default settings, on text of code points below 256, in two
  passes: the text is cut into tokens one character at a time, and the tokens are read
  with a stack of open containers. \<open>None\<close> is any exception of \<open>json.loads\<close>.
  Every position of the grammar needs a delimiter between two values, so cutting the
  text into tokens first accepts the same texts. The interpreter's recursion limit
  (a resource limit like memory) is not modelled.
\<close>

datatype token = LBrace | RBrace | LBracket | RBracket | Colon | Comma | Scalar json

datatype num_phase = NMinus | NZero | NInt | NDot | NFrac | NExp | NExpSign | NExpDigits

datatype lex_state =
    Idle
  | InString codepoints
  | InEscape codepoints
  | InUnicode codepoints int nat
  | InLiteral string json
  | InNumber num_phase string

definition json_space :: "char \<Rightarrow> bool" where
  "json_space c = (c = CHR '' '' \<or> c = CHR 0x09 \<or> c = CHR 0x0A \<or> c = CHR 0x0D)"

definition hex_val :: "char \<Rightarrow> int option" where
  "hex_val c =
     (let n = (of_char c :: int)
      in if 48 \<le> n \<and> n \<le> 57 then Some (n - 48)
         else if 97 \<le> n \<and> n \<le> 102 then Some (n - 87)
         else if 65 \<le> n \<and> n \<le> 70 then Some (n - 55)
         else None)"

text \<open>The character after a backslash, \<open>u\<close> apart.\<close>

definition escape_char :: "char \<Rightarrow> int option" where
  "escape_char c =
     (if c = CHR 0x22 then Some 34
      else if c = CHR 0x5C then Some 92
      else if c = CHR ''/'' then Some 47
      else if c = CHR ''b'' then Some 8
      else if c = CHR ''f'' then Some 12
      else if c = CHR ''n'' then Some 10
      else if c = CHR ''r'' then Some 13
      else if c = CHR ''t'' then Some 9
      else None)"

text \<open>
  A high surrogate escape directly followed by a low surrogate escape is one code
  point. In text of code points below 256 a surrogate can only come from an escape.
\<close>

fun join_surrogates :: "codepoints \<Rightarrow> codepoints" where
  "join_surrogates (a # b # rest) =
     (if 55296 \<le> a \<and> a < 56320 \<and> 56320 \<le> b \<and> b < 57344
      then (65536 + (a - 55296) * 1024 + (b - 56320)) # join_surrogates rest
      else a # join_surrogates (b # rest))"
| "join_surrogates xs = xs"

definition lex_idle :: "char \<Rightarrow> (lex_state \<times> token list) option" where
  "lex_idle c =
     (if json_space c then Some (Idle, [])
      else if c = CHR ''{'' then Some (Idle, [LBrace])
      else if c = CHR ''}'' then Some (Idle, [RBrace])
      else if c = CHR ''['' then Some (Idle, [LBracket])
      else if c = CHR '']'' then Some (Idle, [RBracket])
      else if c = CHR '':'' then Some (Idle, [Colon])
      else if c = CHR '','' then Some (Idle, [Comma])
      else if c = CHR 0x22 then Some (InString [], [])
      else if c = CHR ''n'' then Some (InLiteral ''ull'' JNull, [])
      else if c = CHR ''t'' then Some (InLiteral ''rue'' (JBool True), [])
      else if c = CHR ''f'' then Some (InLiteral ''alse'' (JBool False), [])
      else if c = CHR ''N'' then Some (InLiteral ''aN'' (JFloat ''NaN''), [])
      else if c = CHR ''I'' then Some (InLiteral ''nfinity'' (JFloat ''Infinity''), [])
      else if c = CHR ''-'' then Some (InNumber NMinus [c], [])
      else if c = CHR ''0'' then Some (InNumber NZero [c], [])
      else if is_digit c then Some (InNumber NInt [c], [])
      else None)"

definition lex_string :: "codepoints \<Rightarrow> char \<Rightarrow> (lex_state \<times> token list) option" where
  "lex_string acc c =
     (if c = CHR 0x22 then Some (Idle, [Scalar (JStr (join_surrogates acc))])
      else if c = CHR 0x5C then Some (InEscape acc, [])
      else if (of_char c :: nat) < 32 then None
      else Some (InString (acc @ [of_char c]), []))"

definition lex_escape :: "codepoints \<Rightarrow> char \<Rightarrow> (lex_state \<times> token list) option" where
  "lex_escape acc c =
     (if c = CHR ''u'' then Some (InUnicode acc 0 4, [])
      else case escape_char c of
             None \<Rightarrow> None
           | Some n \<Rightarrow> Some (InString (acc @ [n]), []))"

definition lex_unicode ::
  "codepoints \<Rightarrow> int \<Rightarrow> nat \<Rightarrow> char \<Rightarrow> (lex_state \<times> token list) option" where
  "lex_unicode acc v k c =
     (case hex_val c of
        None \<Rightarrow> None
      | Some d \<Rightarrow>
          if k \<le> 1 then Some (InString (acc @ [v * 16 + d]), [])
          else Some (InUnicode acc (v * 16 + d) (k - 1), []))"

definition lex_literal :: "string \<Rightarrow> json \<Rightarrow> char \<Rightarrow> (lex_state \<times> token list) option" where
  "lex_literal rest v c =
     (case rest of
        [] \<Rightarrow> None
      | x # xs \<Rightarrow>
          if c \<noteq> x then None
          else if xs = [] then Some (Idle, [Scalar v])
          else Some (InLiteral xs v, []))"

text \<open>
  The token of a number lexeme that is complete: an integer (through \<open>int\<close>, with its
  limit on the digits) without fraction and exponent, a float otherwise.
\<close>

definition number_token :: "nat \<Rightarrow> num_phase \<Rightarrow> string \<Rightarrow> token option" where
  "number_token lim ph lx =
     (if ph = NZero \<or> ph = NInt then
        (case py_int lim lx of None \<Rightarrow> None | Some i \<Rightarrow> Some (Scalar (JInt i)))
      else if ph = NFrac \<or> ph = NExpDigits then Some (Scalar (JFloat lx))
      else None)"

definition end_number ::
  "nat \<Rightarrow> num_phase \<Rightarrow> string \<Rightarrow> char \<Rightarrow> (lex_state \<times> token list) option" where
  "end_number lim ph lx c =
     (case number_token lim ph lx of
        None \<Rightarrow> None
      | Some t \<Rightarrow>
          (case lex_idle c of None \<Rightarrow> None | Some (st, ts) \<Rightarrow> Some (st, t # ts)))"

definition lex_number ::
  "nat \<Rightarrow> num_phase \<Rightarrow> string \<Rightarrow> char \<Rightarrow> (lex_state \<times> token list) option" where
  "lex_number lim ph lx c =
     (case ph of
        NMinus \<Rightarrow>
          if c = CHR ''0'' then Some (InNumber NZero (lx @ [c]), [])
          else if is_digit c then Some (InNumber NInt (lx @ [c]), [])
          else if c = CHR ''I'' then Some (InLiteral ''nfinity'' (JFloat ''-Infinity''), [])
          else None
      | NZero \<Rightarrow>
          if c = CHR ''.'' then Some (InNumber NDot (lx @ [c]), [])
          else if c = CHR ''e'' \<or> c = CHR ''E'' then Some (InNumber NExp (lx @ [c]), [])
          else end_number lim ph lx c
      | NInt \<Rightarrow>
          if is_digit c then Some (InNumber NInt (lx @ [c]), [])
          else if c = CHR ''.'' then Some (InNumber NDot (lx @ [c]), [])
          else if c = CHR ''e'' \<or> c = CHR ''E'' then Some (InNumber NExp (lx @ [c]), [])
          else end_number lim ph lx c
      | NDot \<Rightarrow>
          if is_digit c then Some (InNumber NFrac (lx @ [c]), []) else None
      | NFrac \<Rightarrow>
          if is_digit c then Some (InNumber NFrac (lx @ [c]), [])
          else if c = CHR ''e'' \<or> c = CHR ''E'' then Some (InNumber NExp (lx @ [c]), [])
          else end_number lim ph lx c
      | NExp \<Rightarrow>
          if c = CHR ''+'' \<or> c = CHR ''-'' then Some (InNumber NExpSign (lx @ [c]), [])
          else if is_digit c then Some (InNumber NExpDigits (lx @ [c]), [])
          else None
      | NExpSign \<Rightarrow>
          if is_digit c then Some (InNumber NExpDigits (lx @ [c]), []) else None
      | NExpDigits \<Rightarrow>
          if is_digit c then Some (InNumber NExpDigits (lx @ [c]), [])
          else end_number lim ph lx c)"

definition lex_step :: "nat \<Rightarrow> lex_state \<Rightarrow> char \<Rightarrow> (lex_state \<times> token list) option" where
  "lex_step lim st c =
     (case st of
        Idle \<Rightarrow> lex_idle c
      | InString acc \<Rightarrow> lex_string acc c
      | InEscape acc \<Rightarrow> lex_escape acc c
      | InUnicode acc v k \<Rightarrow> lex_unicode acc v k c
      | InLiteral rest v \<Rightarrow> lex_literal rest v c
      | InNumber ph lx \<Rightarrow> lex_number lim ph lx c)"

definition lex_end :: "nat \<Rightarrow> lex_state \<Rightarrow> token list option" where
  "lex_end lim st =
     (case st of
        Idle \<Rightarrow> Some []
      | InNumber ph lx \<Rightarrow>
          (case number_token lim ph lx of None \<Rightarrow> None | Some t \<Rightarrow> Some [t])
      | _ \<Rightarrow> None)"

fun tokenize :: "nat \<Rightarrow> lex_state \<Rightarrow> string \<Rightarrow> token list option" where
  "tokenize lim st [] = lex_end lim st"
| "tokenize lim st (c # cs) =
     (case lex_step lim st c of
        None \<Rightarrow> None
      | Some (st', ts) \<Rightarrow>
          (case tokenize lim st' cs of None \<Rightarrow> None | Some rest \<Rightarrow> Some (ts @ rest)))"

text \<open>
  Reading the tokens. A frame is a container still open: an array with its items, an
  object with its pairs, or an object whose last key waits for its value.
\<close>

datatype frame =
    FArr "json list"
  | FObj "(codepoints \<times> json) list"
  | FKey "(codepoints \<times> json) list" codepoints

datatype expect =
    Value | ValueOrClose | KeyOrClose | Key | ColonNext | SepOrClose | Finished json

fun put_value :: "json \<Rightarrow> frame list \<Rightarrow> (expect \<times> frame list) option" where
  "put_value v [] = Some (Finished v, [])"
| "put_value v (FArr vs # st) = Some (SepOrClose, FArr (vs @ [v]) # st)"
| "put_value v (FKey ps k # st) = Some (SepOrClose, FObj (ps @ [(k, v)]) # st)"
| "put_value v (FObj ps # st) = None"

definition open_value :: "token \<Rightarrow> frame list \<Rightarrow> (expect \<times> frame list) option" where
  "open_value t st =
     (case t of
        Scalar v \<Rightarrow> put_value v st
      | LBrace \<Rightarrow> Some (KeyOrClose, FObj [] # st)
      | LBracket \<Rightarrow> Some (ValueOrClose, FArr [] # st)
      | _ \<Rightarrow> None)"

definition close_arr :: "frame list \<Rightarrow> (expect \<times> frame list) option" where
  "close_arr st = (case st of FArr vs # st' \<Rightarrow> put_value (JArr vs) st' | _ \<Rightarrow> None)"

definition close_obj :: "frame list \<Rightarrow> (expect \<times> frame list) option" where
  "close_obj st = (case st of FObj ps # st' \<Rightarrow> put_value (JObj ps) st' | _ \<Rightarrow> None)"

definition take_key :: "token \<Rightarrow> frame list \<Rightarrow> (expect \<times> frame list) option" where
  "take_key t st =
     (case t of
        Scalar (JStr k) \<Rightarrow>
          (case st of FObj ps # st' \<Rightarrow> Some (ColonNext, FKey ps k # st') | _ \<Rightarrow> None)
      | _ \<Rightarrow> None)"

definition parse_step ::
  "expect \<Rightarrow> frame list \<Rightarrow> token \<Rightarrow> (expect \<times> frame list) option" where
  "parse_step e st t =
     (case e of
        Value \<Rightarrow> open_value t st
      | ValueOrClose \<Rightarrow> if t = RBracket then close_arr st else open_value t st
      | KeyOrClose \<Rightarrow> if t = RBrace then close_obj st else take_key t st
      | Key \<Rightarrow> take_key t st
      | ColonNext \<Rightarrow> if t = Colon then Some (Value, st) else None
      | SepOrClose \<Rightarrow>
          if t = Comma then
            (case st of
               FArr vs # st' \<Rightarrow> Some (Value, st)
             | FObj ps # st' \<Rightarrow> Some (Key, st)
             | _ \<Rightarrow> None)
          else if t = RBracket then close_arr st
          else if t = RBrace then close_obj st
          else None
      | Finished v \<Rightarrow> None)"

fun parse_tokens :: "expect \<Rightarrow> frame list \<Rightarrow> token list \<Rightarrow> json option" where
  "parse_tokens e st [] = (case e of Finished v \<Rightarrow> Some v | _ \<Rightarrow> None)"
| "parse_tokens e st (t # ts) =
     (case parse_step e st t of
        None \<Rightarrow> None
      | Some (e', st') \<Rightarrow> parse_tokens e' st' ts)"

definition json_loads :: "nat \<Rightarrow> string \<Rightarrow> json option" where
  "json_loads lim s =
     (case tokenize lim Idle s of
        None \<Rightarrow> None
      | Some ts \<Rightarrow> parse_tokens Value [] ts)"

section \<open>Request and response models (\<open>models.py\<close>)\<close>

datatype role = User | Assistant | System

record ChatMessage =
  role :: role
  content :: string

record ChatRequest =
  story_id :: string
  character_id :: string
  messages :: "ChatMessage list"
  system_prompt :: string

text \<open>
  \<open>solution\<close> is any \<open>dict\<close> of the request body: its values have a type \<open>'v\<close> of
  their own, and the handler only formats them.
\<close>

record 'v ScoreRequest =
  reasoning :: string
  solution :: "string \<rightharpoonup> 'v"
  is_correct :: bool

record ReasoningScore =
  score :: int
  motive_points :: int
  method_points :: int
  logic_points :: int

text \<open>
  The handler returns plain dicts, not \<open>ScoreResponse\<close>: the values of
  \<open>{"score": \<dots>, "breakdown": {"score": \<dots>, "motive_points": \<dots>, "method_points": \<dots>,
  "logic_points": \<dots>}}\<close> are whatever the branch computed, so they are \<open>json\<close> values.
\<close>

record breakdown =
  score :: json
  motive_points :: json
  method_points :: json
  logic_points :: json

record response =
  score :: json
  breakdown :: breakdown

datatype HTTPException = HTTPException (status_code: nat) (detail: string)

section \<open>The upstream provider\<close>

text \<open>
  A call of the client raises an exception (kept as its message, \<open>str(e)\<close>) or returns.
  A completion is the list of its choices: for the structured call the \<open>message.parsed\<close>
  of each choice, for the plain call the \<open>message.content\<close> of each, both optional.
  A streamed completion is the list of its chunks, each the \<open>delta.content\<close> of its
  choices, and the exception that ends the iteration early, if any.
\<close>

datatype 'a outcome = Raises string | Returns 'a

type_synonym message_dict = "role \<times> string"

type_synonym chunk = "string option list"

type_synonym stream = "chunk list \<times> string option"

record upstream =
  parse :: "string \<Rightarrow> message_dict list \<Rightarrow> ReasoningScore option list outcome"
  create :: "string \<Rightarrow> message_dict list \<Rightarrow> string option list outcome"
  create_stream :: "string \<Rightarrow> message_dict list \<Rightarrow> stream outcome"

text \<open>The calls a handler makes, in order, each with its model and messages.\<close>

datatype call =
    ParseCall string "message_dict list"
  | CreateCall string "message_dict list"
  | StreamCall string "message_dict list"

text \<open>
  What the modules read when they are loaded: the two model names, and the
  interpreter's limit on the digits of an integer literal.
\<close>

record config =
  SCORING_MODEL :: string
  DEFAULT_MODEL :: string
  int_max_str_digits :: nat

section \<open>The score handler (\<open>routers/score.py\<close>)\<close>

text \<open>
  \<open>d.get(key, dflt)\<close> inside an f-string, where \<open>dflt\<close> is a \<open>str\<close>: \<open>str_of\<close> is
  the text Python gives a value of the dict.
\<close>

definition format_get :: "('v \<Rightarrow> string) \<Rightarrow> (string \<rightharpoonup> 'v) \<Rightarrow> string \<Rightarrow> string \<Rightarrow> string" where
  "format_get str_of d key dflt = (case d key of None \<Rightarrow> dflt | Some v \<Rightarrow> str_of v)"

definition build_prompt :: "('v \<Rightarrow> string) \<Rightarrow> 'v ScoreRequest \<Rightarrow> string" where
  \<open>build_prompt str_of request =
     ''THE CORRECT SOLUTION:\<newline>- Culprit: ''
     @ format_get str_of (solution request) ''culprit'' ''Unknown''
     @ ''\<newline>- Method: ''
     @ format_get str_of (solution request) ''method'' ''Unknown''
     @ ''\<newline>- Motive: ''
     @ format_get str_of (solution request) ''motive'' ''Unknown''
     @ ''\<newline>\<newline>THE DETECTIVE'S REASONING:\<newline>"''
     @ reasoning request
     @ ''"\<newline>\<newline>Evaluate the reasoning and provide a structured score.''\<close>

definition scoring_rubric :: string where
  "scoring_rubric =
     ''You are evaluating a detective's reasoning for solving a mystery.\<newline>\<newline>''
     @ ''Score the reasoning from 0-100 based on:\<newline>''
     @ ''1. Does it identify the correct motive? (30 points max)\<newline>''
     @ ''2. Does it explain the method? (30 points max)\<newline>''
     @ ''3. Is the logic sound and well-explained? (40 points max)\<newline>\<newline>''"

definition structured_system_prompt :: string where
  "structured_system_prompt =
     scoring_rubric @ ''Provide a structured breakdown of the score.''"

definition fallback_system_prompt :: string where
  \<open>fallback_system_prompt =
     scoring_rubric
     @ ''Respond with ONLY a JSON object in this format:\<newline>''
     @ ''{"score": 85, "motive_points": 25, "method_points": 28, "logic_points": 32}''\<close>

definition structured_messages :: "('v \<Rightarrow> string) \<Rightarrow> 'v ScoreRequest \<Rightarrow> message_dict list" where
  "structured_messages str_of request =
     [(System, structured_system_prompt), (User, build_prompt str_of request)]"

definition fallback_messages :: "('v \<Rightarrow> string) \<Rightarrow> 'v ScoreRequest \<Rightarrow> message_dict list" where
  "fallback_messages str_of request =
     [(System, fallback_system_prompt), (User, build_prompt str_of request)]"

text \<open>The dict every branch returns, from its four values.\<close>

definition result_dict :: "json \<Rightarrow> json \<Rightarrow> json \<Rightarrow> json \<Rightarrow> response" where
  "result_dict s motive method logic =
     \<lparr>response.score = s,
      breakdown = \<lparr>breakdown.score = s, motive_points = motive,
                   method_points = method, logic_points = logic\<rparr>\<rparr>"

text \<open>
  Tier A, lines 68 to 100: the structured call. Any exception inside the \<open>try\<close> leads to
  the fallback: the call raising, \<open>choices[0]\<close> on an empty list, and \<open>result.score\<close>
  when \<open>parsed\<close> is \<open>None\<close>.
\<close>

definition tier_a :: "ReasoningScore option list outcome \<Rightarrow> ReasoningScore option" where
  "tier_a reply =
     (case reply of
        Raises e \<Rightarrow> None
      | Returns [] \<Rightarrow> None
      | Returns (None # others) \<Rightarrow> None
      | Returns (Some result # others) \<Rightarrow> Some result)"

text \<open>
  Tier B, lines 126 to 142: the bare \<open>except\<close> swallows every exception of the block
  (\<open>find\<close> on \<open>None\<close>, \<open>json.loads\<close> raising), and \<open>None\<close> is falling through to the
  next tier.
\<close>

definition tier_b :: "nat \<Rightarrow> string option \<Rightarrow> response option" where
  "tier_b lim response_text =
     (case response_text of
        None \<Rightarrow> None
      | Some text \<Rightarrow>
          (let start = str_find (CHR ''{'') text;
               end = str_rfind (CHR ''}'') text + 1
           in if start \<ge> 0 \<and> end > start then
                (case json_loads lim (py_slice text start end) of
                   Some (JObj parsed) \<Rightarrow>
                     Some (result_dict (dict_get parsed ''score'' (JInt 50))
                             (dict_get parsed ''motive_points'' (JInt 15))
                             (dict_get parsed ''method_points'' (JInt 15))
                             (dict_get parsed ''logic_points'' (JInt 20)))
                 | _ \<Rightarrow> None)
              else None))"

text \<open>A name between single quotes, as Python prints it in a message.\<close>

definition quoted :: "string \<Rightarrow> string" where
  "quoted s = [CHR 0x27] @ s @ [CHR 0x27]"

text \<open>
  Tiers C and D, lines 145 to 167. \<open>strip\<close> is called outside the inner \<open>try\<close>, so on a
  \<open>None\<close> content its \<open>AttributeError\<close> leaves the fallback (\<open>Inl\<close>, with the message).
\<close>

definition tier_c_d :: "nat \<Rightarrow> string option \<Rightarrow> string + response" where
  "tier_c_d lim message_content =
     (case message_content of
        None \<Rightarrow> Inl (quoted ''NoneType'' @ '' object has no attribute '' @ quoted ''strip'')
      | Some text \<Rightarrow>
          (let score_text = py_strip text
           in case py_int lim score_text of
                Some n \<Rightarrow>
                  (let score = max 0 (min 100 n)
                   in Inr (result_dict (JInt score)
                            (JInt (int_of_product score significand_0_3))
                            (JInt (int_of_product score significand_0_3))
                            (JInt (int_of_product score significand_0_4))))
              | None \<Rightarrow> Inr (result_dict (JInt 50) (JInt 15) (JInt 15) (JInt 20))))"

text \<open>
  The fallback, lines 101 to 167, on the reply of the plain call: an exception of the
  call, or of \<open>choices[0]\<close> on an empty list, leaves it.
\<close>

definition fallback :: "nat \<Rightarrow> string option list outcome \<Rightarrow> string + response" where
  "fallback lim reply =
     (case reply of
        Raises e \<Rightarrow> Inl e
      | Returns [] \<Rightarrow> Inl ''list index out of range''
      | Returns (message_content # others) \<Rightarrow>
          (case tier_b lim message_content of
             Some r \<Rightarrow> Inr r
           | None \<Rightarrow> tier_c_d lim message_content))"

text \<open>
  The handler: its result (the dict returned or the \<open>HTTPException\<close> raised) and the
  calls it made upstream. Building the prompt cannot raise (\<open>solution\<close> is a \<open>dict\<close>
  and each \<open>get\<close> has a default), so the outer \<open>except\<close> only sees what leaves the
  fallback. How the framework serialises the returned dict is outside the model.
\<close>

definition score_reasoning ::
  "config \<Rightarrow> ('v \<Rightarrow> string) \<Rightarrow> upstream \<Rightarrow> 'v ScoreRequest
     \<Rightarrow> (HTTPException + response) \<times> call list" where
  "score_reasoning cfg str_of client request =
     (if \<not> is_correct request then
        (Inr (result_dict (JInt 0) (JInt 0) (JInt 0) (JInt 0)), [])
      else if reasoning request = [] \<or> length (reasoning request) < 20 then
        (Inr (result_dict (JInt 10) (JInt 3) (JInt 3) (JInt 4)), [])
      else
        (let model = SCORING_MODEL cfg;
             first_call = ParseCall model (structured_messages str_of request);
             second_call = CreateCall model (fallback_messages str_of request)
         in case tier_a (parse client model (structured_messages str_of request)) of
              Some result \<Rightarrow>
                (Inr (result_dict (JInt (ReasoningScore.score result))
                        (JInt (ReasoningScore.motive_points result))
                        (JInt (ReasoningScore.method_points result))
                        (JInt (ReasoningScore.logic_points result))),
                 [first_call])
            | None \<Rightarrow>
                (case fallback (int_max_str_digits cfg)
                        (create client model (fallback_messages str_of request)) of
                   Inl e \<Rightarrow>
                     (Inl (HTTPException 500 (''Error scoring reasoning: '' @ e)),
                      [first_call, second_call])
                 | Inr r \<Rightarrow> (Inr r, [first_call, second_call]))))"

section \<open>The chat handler (\<open>routers/chat.py\<close>)\<close>

text \<open>
  The generator, lines 53 to 58: the fragments it yields, in order, and the exception
  that ends it, if any. \<open>chunk.choices[0]\<close> raises on a chunk without choices; a
  content that is \<open>None\<close> or empty is skipped.
\<close>

fun consume :: "chunk list \<Rightarrow> string list \<times> string option" where
  "consume [] = ([], None)"
| "consume ([] # rest) = ([], Some ''list index out of range'')"
| "consume ((None # others) # rest) = consume rest"
| "consume ((Some text # others) # rest) =
     (if text = [] then consume rest
      else (let (out, err) = consume rest in (text # out, err)))"

definition generate :: "stream \<Rightarrow> string list \<times> string option" where
  "generate s =
     (let (out, err) = consume (fst s)
      in (out, case err of Some e \<Rightarrow> Some e | None \<Rightarrow> snd s))"

datatype StreamingResponse =
  StreamingResponse (body: "string list \<times> string option") (media_type: string)

definition chat ::
  "config \<Rightarrow> upstream \<Rightarrow> ChatRequest \<Rightarrow> (HTTPException + StreamingResponse) \<times> call list" where
  "chat cfg client request =
     (let converted = map (\<lambda>msg. (role msg, content msg)) (messages request);
          sent = (System, system_prompt request) # converted
      in case create_stream client (DEFAULT_MODEL cfg) sent of
           Raises e \<Rightarrow> (Inl (HTTPException 500 e), [StreamCall (DEFAULT_MODEL cfg) sent])
         | Returns s \<Rightarrow>
             (Inr (StreamingResponse (generate s) ''text/plain''),
              [StreamCall (DEFAULT_MODEL cfg) sent]))"

section \<open>Scenarios used by the statements\<close>

text \<open>
  A request reaches the fallback with the content \<open>c\<close>: the answer is correct, the
  reasoning has 20 characters or more, the structured call gives no parsed result, and
  the first choice of the plain completion has the content \<open>c\<close>.
\<close>

definition falls_back ::
  "config \<Rightarrow> ('v \<Rightarrow> string) \<Rightarrow> upstream \<Rightarrow> 'v ScoreRequest \<Rightarrow> string option \<Rightarrow> bool" where
  "falls_back cfg str_of client request c =
     (is_correct request \<and> 20 \<le> length (reasoning request)
      \<and> tier_a (parse client (SCORING_MODEL cfg) (structured_messages str_of request)) = None
      \<and> (case create client (SCORING_MODEL cfg) (fallback_messages str_of request) of
             Returns (x # others) \<Rightarrow> x = c
           | _ \<Rightarrow> False))"

text \<open>The configuration of a deployment that sets no variable.\<close>

definition example_config :: config where
  "example_config =
     \<lparr>SCORING_MODEL = ''openai/gpt-4o-mini'',
      DEFAULT_MODEL = ''anthropic/claude-3.5-sonnet'',
      int_max_str_digits = 4300\<rparr>"

text \<open>
  A provider without structured output: the structured call raises, the plain call
  returns one choice with the content \<open>c\<close>.
\<close>

definition plain_only :: "string option \<Rightarrow> upstream" where
  "plain_only c =
     \<lparr>parse = (\<lambda>model msgs. Raises ''structured output is not supported''),
      create = (\<lambda>model msgs. Returns [c]),
      create_stream = (\<lambda>model msgs. Returns ([], None))\<rparr>"

definition example_request :: "string ScoreRequest" where
  "example_request =
     \<lparr>reasoning = ''The butler did it with the candlestick'',
      solution = Map.empty,
      is_correct = True\<rparr>"

text \<open>A provider with structured output: the structured call returns one parsed choice.\<close>

definition structured_only :: "ReasoningScore \<Rightarrow> upstream" where
  "structured_only result =
     \<lparr>parse = (\<lambda>model msgs. Returns [Some result]),
      create = (\<lambda>model msgs. Raises ''not called''),
      create_stream = (\<lambda>model msgs. Returns ([], None))\<rparr>"

text \<open>A provider that is down: both calls of the score handler raise \<open>e\<close>.\<close>

definition unreachable :: "string \<Rightarrow> upstream" where
  "unreachable e =
     \<lparr>parse = (\<lambda>model msgs. Raises e),
      create = (\<lambda>model msgs. Raises e),
      create_stream = (\<lambda>model msgs. Raises e)\<rparr>"

text \<open>A provider whose streamed completion is \<open>s\<close>.\<close>

definition streaming :: "stream \<Rightarrow> upstream" where
  "streaming s =
     \<lparr>parse = (\<lambda>model msgs. Raises ''structured output is not supported''),
      create = (\<lambda>model msgs. Returns []),
      create_stream = (\<lambda>model msgs. Returns s)\<rparr>"

definition example_chat :: ChatRequest where
  "example_chat =
     \<lparr>story_id = ''story-1'',
      character_id = ''butler'',
      messages = [\<lparr>role = User, content = ''Where were you last night?''\<rparr>,
                  \<lparr>role = Assistant, content = ''In the pantry.''\<rparr>,
                  \<lparr>role = User, content = ''Alone?''\<rparr>],
      system_prompt = ''You are the butler.''\<rparr>"

text \<open>A JSON value that is a number, and a returned dict whose five values are numbers.\<close>

definition numeric :: "json \<Rightarrow> bool" where
  "numeric v = (case v of JInt i \<Rightarrow> True | JFloat x \<Rightarrow> True | _ \<Rightarrow> False)"

definition numeric_result :: "response \<Rightarrow> bool" where
  "numeric_result r =
     (numeric (response.score r)
      \<and> numeric (breakdown.score (breakdown r))
      \<and> numeric (motive_points (breakdown r))
      \<and> numeric (method_points (breakdown r))
      \<and> numeric (logic_points (breakdown r)))"


section \<open>Properties of the score handler\<close>

lemma falls_back_result:
  assumes "falls_back cfg str_of client request c"
  shows "fst (score_reasoning cfg str_of client request) =
           (case tier_b (int_max_str_digits cfg) c of
              Some r \<Rightarrow> Inr r
            | None \<Rightarrow>
                (case tier_c_d (int_max_str_digits cfg) c of
                   Inl e \<Rightarrow> Inl (HTTPException 500 (''Error scoring reasoning: '' @ e))
                 | Inr r \<Rightarrow> Inr r))"
  using assms
  by (auto simp: falls_back_def score_reasoning_def fallback_def Let_def
           split: outcome.splits list.splits option.splits sum.splits)

lemma falls_back_plain_only:
  "falls_back example_config id (plain_only c) example_request c"
  by (simp add: falls_back_def plain_only_def example_request_def tier_a_def)

text \<open>
  For a score between 0 and 100 the rounded binary64 product, truncated, is the exact
  30 or 40 per cent, truncated: all 101 cases are computed.
\<close>

lemma products_upto_100:
  "list_all (\<lambda>s. int_of_product s significand_0_3 = s * 3 div 10
               \<and> int_of_product s significand_0_4 = s * 4 div 10) [0..100]"
  by code_simp

lemma int_of_product_truncates:
  assumes "0 \<le> s" "s \<le> 100"
  shows "int_of_product s significand_0_3 = s * 3 div 10"
    and "int_of_product s significand_0_4 = s * 4 div 10"
proof -
  from assms have "s \<in> set [0..100]" by simp
  with products_upto_100 show "int_of_product s significand_0_3 = s * 3 div 10"
    and "int_of_product s significand_0_4 = s * 4 div 10"
    unfolding list_all_iff by blast+
qed

text \<open>
  C1. Whenever \<open>is_correct\<close> is false the handler returns the all-zero dict, whatever
  the reasoning and the solution are, and makes no call upstream.
\<close>

theorem score_incorrect_is_zero:
  "\<not> is_correct request \<Longrightarrow>
   score_reasoning cfg str_of client request =
     (Inr \<lparr>response.score = JInt 0,
           breakdown = \<lparr>breakdown.score = JInt 0, motive_points = JInt 0,
                        method_points = JInt 0, logic_points = JInt 0\<rparr>\<rparr>, [])"
  by (simp add: score_reasoning_def result_dict_def)

theorem score_incorrect_is_zero_witness:
  "\<not> is_correct (example_request\<lparr>is_correct := False\<rparr>)
   \<and> score_reasoning example_config id (plain_only None)
         (example_request\<lparr>is_correct := False\<rparr>) =
       (Inr \<lparr>response.score = JInt 0,
             breakdown = \<lparr>breakdown.score = JInt 0, motive_points = JInt 0,
                          method_points = JInt 0, logic_points = JInt 0\<rparr>\<rparr>, [])"
proof -
  have wrong: "\<not> is_correct (example_request\<lparr>is_correct := False\<rparr>)" by simp
  from score_incorrect_is_zero [OF wrong, of example_config id "plain_only None"] wrong
  show ?thesis by simp
qed

text \<open>
  C2. Whenever \<open>is_correct\<close> is true and the reasoning has fewer than 20 characters the
  handler returns the fixed dict 10, 3, 3, 4 and makes no call upstream.
\<close>

theorem score_short_reasoning_is_ten:
  "is_correct request \<Longrightarrow> length (reasoning request) < 20 \<Longrightarrow>
   score_reasoning cfg str_of client request =
     (Inr \<lparr>response.score = JInt 10,
           breakdown = \<lparr>breakdown.score = JInt 10, motive_points = JInt 3,
                        method_points = JInt 3, logic_points = JInt 4\<rparr>\<rparr>, [])"
  by (simp add: score_reasoning_def result_dict_def)

theorem score_short_reasoning_is_ten_witness:
  "is_correct (example_request\<lparr>reasoning := ''The butler did it''\<rparr>)
   \<and> length (reasoning (example_request\<lparr>reasoning := ''The butler did it''\<rparr>)) < 20
   \<and> score_reasoning example_config id (plain_only None)
         (example_request\<lparr>reasoning := ''The butler did it''\<rparr>) =
       (Inr \<lparr>response.score = JInt 10,
             breakdown = \<lparr>breakdown.score = JInt 10, motive_points = JInt 3,
                          method_points = JInt 3, logic_points = JInt 4\<rparr>\<rparr>, [])"
proof -
  have right: "is_correct (example_request\<lparr>reasoning := ''The butler did it''\<rparr>)"
    by (simp add: example_request_def)
  have short: "length (reasoning (example_request\<lparr>reasoning := ''The butler did it''\<rparr>)) < 20"
    by simp
  from score_short_reasoning_is_ten [OF right short, of example_config id "plain_only None"]
    right short
  show ?thesis by simp
qed

text \<open>The two texts of the specification, under every limit on the digits.\<close>

lemma tier_b_prefixed_text:
  \<open>tier_b lim (Some ''prefix {"score": 77, "motive_points": 20, "method_points": 22, "logic_points": 35} suffix'')
     = Some (result_dict (JInt 77) (JInt 20) (JInt 22) (JInt 35))\<close>
  by code_simp

lemma tier_b_partial_object:
  \<open>tier_b lim (Some ''{"score": 60}'')
     = Some (result_dict (JInt 60) (JInt 15) (JInt 15) (JInt 20))\<close>
  by code_simp

text \<open>
  C3. Tier B: when the text of the fallback completion has a \<open>{\<close> and a \<open>}\<close> after it
  and the text from the first \<open>{\<close> to the last \<open>}\<close> is a JSON object, each of the four
  values returned is the value of the object under its key, or the default (50, 15, 15,
  20) when the key is missing. In particular the text with a prefix and a suffix around
  the four keys gives 77, 20, 22, 35, and the object with only \<open>score\<close> gives 60, 15,
  15, 20.
\<close>

theorem tier_b_parsing:
  \<open>(falls_back cfg str_of client request (Some text) \<longrightarrow>
      0 \<le> str_find (CHR ''{'') text \<longrightarrow>
      str_find (CHR ''{'') text < str_rfind (CHR ''}'') text + 1 \<longrightarrow>
      json_loads (int_max_str_digits cfg)
        (py_slice text (str_find (CHR ''{'') text) (str_rfind (CHR ''}'') text + 1))
        = Some (JObj parsed) \<longrightarrow>
      fst (score_reasoning cfg str_of client request) =
        Inr \<lparr>response.score = dict_get parsed ''score'' (JInt 50),
             breakdown =
               \<lparr>breakdown.score = dict_get parsed ''score'' (JInt 50),
                motive_points = dict_get parsed ''motive_points'' (JInt 15),
                method_points = dict_get parsed ''method_points'' (JInt 15),
                logic_points = dict_get parsed ''logic_points'' (JInt 20)\<rparr>\<rparr>)
   \<and> (falls_back cfg str_of client request
         (Some ''prefix {"score": 77, "motive_points": 20, "method_points": 22, "logic_points": 35} suffix'') \<longrightarrow>
      fst (score_reasoning cfg str_of client request) =
        Inr \<lparr>response.score = JInt 77,
             breakdown = \<lparr>breakdown.score = JInt 77, motive_points = JInt 20,
                          method_points = JInt 22, logic_points = JInt 35\<rparr>\<rparr>)
   \<and> (falls_back cfg str_of client request (Some ''{"score": 60}'') \<longrightarrow>
      fst (score_reasoning cfg str_of client request) =
        Inr \<lparr>response.score = JInt 60,
             breakdown = \<lparr>breakdown.score = JInt 60, motive_points = JInt 15,
                          method_points = JInt 15, logic_points = JInt 20\<rparr>\<rparr>)\<close>
proof (intro conjI impI)
  assume fb: "falls_back cfg str_of client request (Some text)"
    and "0 \<le> str_find (CHR ''{'') text"
    and "str_find (CHR ''{'') text < str_rfind (CHR ''}'') text + 1"
    and "json_loads (int_max_str_digits cfg)
           (py_slice text (str_find (CHR ''{'') text) (str_rfind (CHR ''}'') text + 1))
           = Some (JObj parsed)"
  then have "tier_b (int_max_str_digits cfg) (Some text) =
      Some (result_dict (dict_get parsed ''score'' (JInt 50))
              (dict_get parsed ''motive_points'' (JInt 15))
              (dict_get parsed ''method_points'' (JInt 15))
              (dict_get parsed ''logic_points'' (JInt 20)))"
    by (simp add: tier_b_def Let_def)
  with falls_back_result [OF fb]
  show "fst (score_reasoning cfg str_of client request) =
        Inr \<lparr>response.score = dict_get parsed ''score'' (JInt 50),
             breakdown =
               \<lparr>breakdown.score = dict_get parsed ''score'' (JInt 50),
                motive_points = dict_get parsed ''motive_points'' (JInt 15),
                method_points = dict_get parsed ''method_points'' (JInt 15),
                logic_points = dict_get parsed ''logic_points'' (JInt 20)\<rparr>\<rparr>"
    by (simp add: result_dict_def)
next
  assume fb: \<open>falls_back cfg str_of client request
         (Some ''prefix {"score": 77, "motive_points": 20, "method_points": 22, "logic_points": 35} suffix'')\<close>
  from falls_back_result [OF fb] tier_b_prefixed_text [of "int_max_str_digits cfg"]
  show "fst (score_reasoning cfg str_of client request) =
        Inr \<lparr>response.score = JInt 77,
             breakdown = \<lparr>breakdown.score = JInt 77, motive_points = JInt 20,
                          method_points = JInt 22, logic_points = JInt 35\<rparr>\<rparr>"
    by (simp add: result_dict_def)
next
  assume fb: \<open>falls_back cfg str_of client request (Some ''{"score": 60}'')\<close>
  from falls_back_result [OF fb] tier_b_partial_object [of "int_max_str_digits cfg"]
  show "fst (score_reasoning cfg str_of client request) =
        Inr \<lparr>response.score = JInt 60,
             breakdown = \<lparr>breakdown.score = JInt 60, motive_points = JInt 15,
                          method_points = JInt 15, logic_points = JInt 20\<rparr>\<rparr>"
    by (simp add: result_dict_def)
qed

lemma prefixed_text_indices:
  \<open>str_find (CHR ''{'') ''prefix {"score": 77, "motive_points": 20, "method_points": 22, "logic_points": 35} suffix'' = 7\<close>
  \<open>str_rfind (CHR ''}'') ''prefix {"score": 77, "motive_points": 20, "method_points": 22, "logic_points": 35} suffix'' = 81\<close>
  by code_simp+

lemma prefixed_text_object:
  \<open>json_loads 4300 (py_slice ''prefix {"score": 77, "motive_points": 20, "method_points": 22, "logic_points": 35} suffix'' 7 82)
     = Some (JObj [(ustr ''score'', JInt 77), (ustr ''motive_points'', JInt 20),
                   (ustr ''method_points'', JInt 22), (ustr ''logic_points'', JInt 35)])\<close>
  by code_simp

lemma dict_get_examples:
  "dict_get [(ustr ''score'', JInt 77), (ustr ''motive_points'', JInt 20),
             (ustr ''method_points'', JInt 22), (ustr ''logic_points'', JInt 35)] ''score'' (JInt 50) = JInt 77"
  "dict_get [(ustr ''score'', JInt 77), (ustr ''motive_points'', JInt 20),
             (ustr ''method_points'', JInt 22), (ustr ''logic_points'', JInt 35)] ''motive_points'' (JInt 15) = JInt 20"
  "dict_get [(ustr ''score'', JInt 77), (ustr ''motive_points'', JInt 20),
             (ustr ''method_points'', JInt 22), (ustr ''logic_points'', JInt 35)] ''method_points'' (JInt 15) = JInt 22"
  "dict_get [(ustr ''score'', JInt 77), (ustr ''motive_points'', JInt 20),
             (ustr ''method_points'', JInt 22), (ustr ''logic_points'', JInt 35)] ''logic_points'' (JInt 20) = JInt 35"
  by code_simp+

theorem tier_b_parsing_witness:
  \<open>(let text = ''prefix {"score": 77, "motive_points": 20, "method_points": 22, "logic_points": 35} suffix'';
        client = plain_only (Some text)
    in falls_back example_config id client example_request (Some text)
       \<and> 0 \<le> str_find (CHR ''{'') text
       \<and> str_find (CHR ''{'') text < str_rfind (CHR ''}'') text + 1
       \<and> json_loads (int_max_str_digits example_config)
            (py_slice text (str_find (CHR ''{'') text) (str_rfind (CHR ''}'') text + 1))
          = Some (JObj [(ustr ''score'', JInt 77), (ustr ''motive_points'', JInt 20),
                        (ustr ''method_points'', JInt 22), (ustr ''logic_points'', JInt 35)])
       \<and> fst (score_reasoning example_config id client example_request) =
           Inr \<lparr>response.score = JInt 77,
                breakdown = \<lparr>breakdown.score = JInt 77, motive_points = JInt 20,
                             method_points = JInt 22, logic_points = JInt 35\<rparr>\<rparr>)
   \<and> (let text = ''{"score": 60}''; client = plain_only (Some text)
      in falls_back example_config id client example_request (Some text)
         \<and> fst (score_reasoning example_config id client example_request) =
             Inr \<lparr>response.score = JInt 60,
                  breakdown = \<lparr>breakdown.score = JInt 60, motive_points = JInt 15,
                               method_points = JInt 15, logic_points = JInt 20\<rparr>\<rparr>)\<close>
proof -
  let ?t = \<open>''prefix {"score": 77, "motive_points": 20, "method_points": 22, "logic_points": 35} suffix''\<close>
  let ?u = \<open>''{"score": 60}''\<close>
  let ?parsed = "[(ustr ''score'', JInt 77), (ustr ''motive_points'', JInt 20),
                  (ustr ''method_points'', JInt 22), (ustr ''logic_points'', JInt 35)]"
  have fb: "falls_back example_config id (plain_only (Some ?t)) example_request (Some ?t)"
    by (rule falls_back_plain_only)
  have fu: "falls_back example_config id (plain_only (Some ?u)) example_request (Some ?u)"
    by (rule falls_back_plain_only)
  have lo: "0 \<le> str_find (CHR ''{'') ?t"
    and hi: "str_find (CHR ''{'') ?t < str_rfind (CHR ''}'') ?t + 1"
    by (simp_all only: prefixed_text_indices, simp_all?)
  have obj: "json_loads (int_max_str_digits example_config)
               (py_slice ?t (str_find (CHR ''{'') ?t) (str_rfind (CHR ''}'') ?t + 1))
             = Some (JObj ?parsed)"
    using prefixed_text_object by (simp only: prefixed_text_indices, (simp add: example_config_def)?)
  note general = tier_b_parsing [of example_config id "plain_only (Some ?t)" example_request ?t ?parsed]
  note partial = tier_b_parsing [of example_config id "plain_only (Some ?u)" example_request]
  from general fb lo hi obj
  have "fst (score_reasoning example_config id (plain_only (Some ?t)) example_request) =
        Inr \<lparr>response.score = dict_get ?parsed ''score'' (JInt 50),
             breakdown =
               \<lparr>breakdown.score = dict_get ?parsed ''score'' (JInt 50),
                motive_points = dict_get ?parsed ''motive_points'' (JInt 15),
                method_points = dict_get ?parsed ''method_points'' (JInt 15),
                logic_points = dict_get ?parsed ''logic_points'' (JInt 20)\<rparr>\<rparr>"
    by blast
  then have first: "fst (score_reasoning example_config id (plain_only (Some ?t)) example_request) =
        Inr \<lparr>response.score = JInt 77,
             breakdown = \<lparr>breakdown.score = JInt 77, motive_points = JInt 20,
                          method_points = JInt 22, logic_points = JInt 35\<rparr>\<rparr>"
    by (simp only: dict_get_examples)
  from partial fu
  have second: "fst (score_reasoning example_config id (plain_only (Some ?u)) example_request) =
        Inr \<lparr>response.score = JInt 60,
             breakdown = \<lparr>breakdown.score = JInt 60, motive_points = JInt 15,
                          method_points = JInt 15, logic_points = JInt 20\<rparr>\<rparr>"
    by blast
  from fb fu lo hi obj first second show ?thesis
    unfolding Let_def by blast
qed

lemma tier_c_d_number:
  assumes "py_int lim (py_strip text) = Some n"
  shows "tier_c_d lim (Some text) =
           Inr (result_dict (JInt (max 0 (min 100 n)))
                  (JInt (max 0 (min 100 n) * 3 div 10))
                  (JInt (max 0 (min 100 n) * 3 div 10))
                  (JInt (max 0 (min 100 n) * 4 div 10)))"
proof -
  define s where "s = max 0 (min 100 n)"
  have "0 \<le> s" and "s \<le> 100" by (simp_all add: s_def)
  then have p3: "int_of_product s significand_0_3 = s * 3 div 10"
    and p4: "int_of_product s significand_0_4 = s * 4 div 10"
    by (rule int_of_product_truncates)+
  from assms have "tier_c_d lim (Some text) =
      Inr (result_dict (JInt s) (JInt (int_of_product s significand_0_3))
             (JInt (int_of_product s significand_0_3))
             (JInt (int_of_product s significand_0_4)))"
    by (simp add: tier_c_d_def Let_def s_def)
  then show ?thesis unfolding p3 p4 unfolding s_def .
qed

lemma bare_number_text:
  "tier_b lim (Some ''  88  '') = None"
  "py_int lim (py_strip ''  88  '') = Some 88"
  by code_simp+

lemma unparseable_text:
  "tier_b lim (Some ''I cannot compute a score'') = None"
  "py_int lim (py_strip ''I cannot compute a score'') = None"
  by code_simp+

text \<open>
  C4. Tier C: when Tier B gives no result on the text of the fallback completion and
  the trimmed text is an integer literal, the score is that integer clamped to 0..100
  and the three parts are \<open>int(score * 0.3)\<close>, \<open>int(score * 0.3)\<close>, \<open>int(score * 0.4)\<close>,
  which are the truncated 30, 30 and 40 per cent. In particular \<open>"  88  "\<close> gives 88,
  26, 26, 35.
\<close>

theorem tier_c_parsing:
  "(falls_back cfg str_of client request (Some text) \<longrightarrow>
      tier_b (int_max_str_digits cfg) (Some text) = None \<longrightarrow>
      py_int (int_max_str_digits cfg) (py_strip text) = Some n \<longrightarrow>
      fst (score_reasoning cfg str_of client request) =
        Inr \<lparr>response.score = JInt (max 0 (min 100 n)),
             breakdown =
               \<lparr>breakdown.score = JInt (max 0 (min 100 n)),
                motive_points = JInt (int_of_product (max 0 (min 100 n)) significand_0_3),
                method_points = JInt (int_of_product (max 0 (min 100 n)) significand_0_3),
                logic_points = JInt (int_of_product (max 0 (min 100 n)) significand_0_4)\<rparr>\<rparr>
      \<and> int_of_product (max 0 (min 100 n)) significand_0_3 = max 0 (min 100 n) * 3 div 10
      \<and> int_of_product (max 0 (min 100 n)) significand_0_4 = max 0 (min 100 n) * 4 div 10)
   \<and> (falls_back cfg str_of client request (Some ''  88  '') \<longrightarrow>
      fst (score_reasoning cfg str_of client request) =
        Inr \<lparr>response.score = JInt 88,
             breakdown = \<lparr>breakdown.score = JInt 88, motive_points = JInt 26,
                          method_points = JInt 26, logic_points = JInt 35\<rparr>\<rparr>)"
proof (intro conjI impI)
  assume fb: "falls_back cfg str_of client request (Some text)"
    and nb: "tier_b (int_max_str_digits cfg) (Some text) = None"
    and num: "py_int (int_max_str_digits cfg) (py_strip text) = Some n"
  from falls_back_result [OF fb] nb num
  show "fst (score_reasoning cfg str_of client request) =
        Inr \<lparr>response.score = JInt (max 0 (min 100 n)),
             breakdown =
               \<lparr>breakdown.score = JInt (max 0 (min 100 n)),
                motive_points = JInt (int_of_product (max 0 (min 100 n)) significand_0_3),
                method_points = JInt (int_of_product (max 0 (min 100 n)) significand_0_3),
                logic_points = JInt (int_of_product (max 0 (min 100 n)) significand_0_4)\<rparr>\<rparr>"
    by (simp add: tier_c_d_def Let_def result_dict_def)
  have "0 \<le> max 0 (min 100 n)" and "max 0 (min 100 n) \<le> 100" by simp_all
  then show "int_of_product (max 0 (min 100 n)) significand_0_3 = max 0 (min 100 n) * 3 div 10"
    and "int_of_product (max 0 (min 100 n)) significand_0_4 = max 0 (min 100 n) * 4 div 10"
    by (rule int_of_product_truncates)+
next
  assume fb: "falls_back cfg str_of client request (Some ''  88  '')"
  have "tier_c_d (int_max_str_digits cfg) (Some ''  88  '') =
          Inr (result_dict (JInt 88) (JInt 26) (JInt 26) (JInt 35))"
    using tier_c_d_number [OF bare_number_text(2), of "int_max_str_digits cfg"] by simp
  with falls_back_result [OF fb] bare_number_text(1) [of "int_max_str_digits cfg"]
  show "fst (score_reasoning cfg str_of client request) =
        Inr \<lparr>response.score = JInt 88,
             breakdown = \<lparr>breakdown.score = JInt 88, motive_points = JInt 26,
                          method_points = JInt 26, logic_points = JInt 35\<rparr>\<rparr>"
    by (simp add: result_dict_def)
qed

theorem tier_c_parsing_witness:
  "falls_back example_config id (plain_only (Some ''  250 '')) example_request (Some ''  250 '')
   \<and> tier_b (int_max_str_digits example_config) (Some ''  250 '') = None
   \<and> py_int (int_max_str_digits example_config) (py_strip ''  250 '') = Some 250
   \<and> fst (score_reasoning example_config id (plain_only (Some ''  250 '')) example_request) =
        Inr \<lparr>response.score = JInt 100,
             breakdown = \<lparr>breakdown.score = JInt 100, motive_points = JInt 30,
                          method_points = JInt 30, logic_points = JInt 40\<rparr>\<rparr>
   \<and> falls_back example_config id (plain_only (Some ''  88  '')) example_request (Some ''  88  '')
   \<and> fst (score_reasoning example_config id (plain_only (Some ''  88  '')) example_request) =
        Inr \<lparr>response.score = JInt 88,
             breakdown = \<lparr>breakdown.score = JInt 88, motive_points = JInt 26,
                          method_points = JInt 26, logic_points = JInt 35\<rparr>\<rparr>"
proof -
  have fb: "falls_back example_config id (plain_only (Some ''  250 '')) example_request (Some ''  250 '')"
    by (rule falls_back_plain_only)
  have fc: "falls_back example_config id (plain_only (Some ''  88  '')) example_request (Some ''  88  '')"
    by (rule falls_back_plain_only)
  have nb: "tier_b (int_max_str_digits example_config) (Some ''  250 '') = None"
    by code_simp
  have num: "py_int (int_max_str_digits example_config) (py_strip ''  250 '') = Some 250"
    by code_simp
  note general = tier_c_parsing [of example_config id "plain_only (Some ''  250 '')" example_request "''  250 ''" 250]
  note special = tier_c_parsing [of example_config id "plain_only (Some ''  88  '')" example_request]
  from general fb nb num
  have "fst (score_reasoning example_config id (plain_only (Some ''  250 '')) example_request) =
        Inr \<lparr>response.score = JInt (max 0 (min 100 250)),
             breakdown =
               \<lparr>breakdown.score = JInt (max 0 (min 100 250)),
                motive_points = JInt (int_of_product (max 0 (min 100 250)) significand_0_3),
                method_points = JInt (int_of_product (max 0 (min 100 250)) significand_0_3),
                logic_points = JInt (int_of_product (max 0 (min 100 250)) significand_0_4)\<rparr>\<rparr>
      \<and> int_of_product (max 0 (min 100 250)) significand_0_3 = max 0 (min 100 250) * 3 div 10
      \<and> int_of_product (max 0 (min 100 250)) significand_0_4 = max 0 (min 100 250) * 4 div 10"
    by blast
  then have first: "fst (score_reasoning example_config id (plain_only (Some ''  250 '')) example_request) =
        Inr \<lparr>response.score = JInt 100,
             breakdown = \<lparr>breakdown.score = JInt 100, motive_points = JInt 30,
                          method_points = JInt 30, logic_points = JInt 40\<rparr>\<rparr>"
    by (elim conjE) simp
  from special fc
  have second: "fst (score_reasoning example_config id (plain_only (Some ''  88  '')) example_request) =
        Inr \<lparr>response.score = JInt 88,
             breakdown = \<lparr>breakdown.score = JInt 88, motive_points = JInt 26,
                          method_points = JInt 26, logic_points = JInt 35\<rparr>\<rparr>"
    by blast
  from fb fc nb num first second show ?thesis by blast
qed

text \<open>
  C5. Tier D: when Tier B gives no result on the text of the fallback completion and
  the trimmed text is no integer literal, the handler returns the fixed dict 50, 15, 15,
  20. In particular \<open>"I cannot compute a score"\<close> does.
\<close>

theorem tier_d_default:
  "(falls_back cfg str_of client request (Some text) \<longrightarrow>
      tier_b (int_max_str_digits cfg) (Some text) = None \<longrightarrow>
      py_int (int_max_str_digits cfg) (py_strip text) = None \<longrightarrow>
      fst (score_reasoning cfg str_of client request) =
        Inr \<lparr>response.score = JInt 50,
             breakdown = \<lparr>breakdown.score = JInt 50, motive_points = JInt 15,
                          method_points = JInt 15, logic_points = JInt 20\<rparr>\<rparr>)
   \<and> (falls_back cfg str_of client request (Some ''I cannot compute a score'') \<longrightarrow>
      fst (score_reasoning cfg str_of client request) =
        Inr \<lparr>response.score = JInt 50,
             breakdown = \<lparr>breakdown.score = JInt 50, motive_points = JInt 15,
                          method_points = JInt 15, logic_points = JInt 20\<rparr>\<rparr>)"
proof (intro conjI impI)
  assume fb: "falls_back cfg str_of client request (Some text)"
    and nb: "tier_b (int_max_str_digits cfg) (Some text) = None"
    and nn: "py_int (int_max_str_digits cfg) (py_strip text) = None"
  from falls_back_result [OF fb] nb nn
  show "fst (score_reasoning cfg str_of client request) =
        Inr \<lparr>response.score = JInt 50,
             breakdown = \<lparr>breakdown.score = JInt 50, motive_points = JInt 15,
                          method_points = JInt 15, logic_points = JInt 20\<rparr>\<rparr>"
    by (simp add: tier_c_d_def Let_def result_dict_def)
next
  assume fb: "falls_back cfg str_of client request (Some ''I cannot compute a score'')"
  from falls_back_result [OF fb] unparseable_text [of "int_max_str_digits cfg"]
  show "fst (score_reasoning cfg str_of client request) =
        Inr \<lparr>response.score = JInt 50,
             breakdown = \<lparr>breakdown.score = JInt 50, motive_points = JInt 15,
                          method_points = JInt 15, logic_points = JInt 20\<rparr>\<rparr>"
    by (simp add: tier_c_d_def Let_def result_dict_def)
qed

theorem tier_d_default_witness:
  "falls_back example_config id (plain_only (Some ''{not json} 12'')) example_request
     (Some ''{not json} 12'')
   \<and> tier_b (int_max_str_digits example_config) (Some ''{not json} 12'') = None
   \<and> py_int (int_max_str_digits example_config) (py_strip ''{not json} 12'') = None
   \<and> fst (score_reasoning example_config id (plain_only (Some ''{not json} 12'')) example_request) =
        Inr \<lparr>response.score = JInt 50,
             breakdown = \<lparr>breakdown.score = JInt 50, motive_points = JInt 15,
                          method_points = JInt 15, logic_points = JInt 20\<rparr>\<rparr>
   \<and> falls_back example_config id (plain_only (Some ''I cannot compute a score''))
         example_request (Some ''I cannot compute a score'')
   \<and> fst (score_reasoning example_config id (plain_only (Some ''I cannot compute a score''))
            example_request) =
        Inr \<lparr>response.score = JInt 50,
             breakdown = \<lparr>breakdown.score = JInt 50, motive_points = JInt 15,
                          method_points = JInt 15, logic_points = JInt 20\<rparr>\<rparr>"
proof -
  have fb: "falls_back example_config id (plain_only (Some ''{not json} 12'')) example_request
              (Some ''{not json} 12'')"
    by (rule falls_back_plain_only)
  have fc: "falls_back example_config id (plain_only (Some ''I cannot compute a score''))
              example_request (Some ''I cannot compute a score'')"
    by (rule falls_back_plain_only)
  have nb: "tier_b (int_max_str_digits example_config) (Some ''{not json} 12'') = None"
    by code_simp
  have nn: "py_int (int_max_str_digits example_config) (py_strip ''{not json} 12'') = None"
    by code_simp
  note general = tier_d_default [of example_config id "plain_only (Some ''{not json} 12'')"
      example_request "''{not json} 12''"]
  note special = tier_d_default [of example_config id
      "plain_only (Some ''I cannot compute a score'')" example_request]
  from general fb nb nn
  have first: "fst (score_reasoning example_config id (plain_only (Some ''{not json} 12'')) example_request) =
        Inr \<lparr>response.score = JInt 50,
             breakdown = \<lparr>breakdown.score = JInt 50, motive_points = JInt 15,
                          method_points = JInt 15, logic_points = JInt 20\<rparr>\<rparr>"
    by blast
  from special fc
  have second: "fst (score_reasoning example_config id (plain_only (Some ''I cannot compute a score''))
            example_request) =
        Inr \<lparr>response.score = JInt 50,
             breakdown = \<lparr>breakdown.score = JInt 50, motive_points = JInt 15,
                          method_points = JInt 15, logic_points = JInt 20\<rparr>\<rparr>"
    by blast
  from fb fc nb nn first second show ?thesis by blast
qed

lemma score_reasoning_result_dict:
  assumes "fst (score_reasoning cfg str_of client request) = Inr r"
  shows "\<exists>s motive method logic. r = result_dict s motive method logic"
  using assms
  by (auto simp: score_reasoning_def fallback_def tier_b_def tier_c_d_def Let_def
           split: if_splits option.splits outcome.splits list.splits sum.splits json.splits)

text \<open>
  C10. In every dict the handler returns, from either short circuit or from any of the
  four tiers, the top-level \<open>score\<close> is the \<open>score\<close> of the breakdown.
\<close>

theorem score_equals_breakdown_score:
  "fst (score_reasoning cfg str_of client request) = Inr r \<Longrightarrow>
   response.score r = breakdown.score (breakdown r)"
proof -
  assume "fst (score_reasoning cfg str_of client request) = Inr r"
  then obtain a b c d where "r = result_dict a b c d"
    using score_reasoning_result_dict by blast
  then show ?thesis by (simp add: result_dict_def)
qed

theorem score_equals_breakdown_score_witness:
  \<open>fst (score_reasoning example_config id (plain_only (Some ''{"score": 60}'')) example_request) =
     Inr \<lparr>response.score = JInt 60,
          breakdown = \<lparr>breakdown.score = JInt 60, motive_points = JInt 15,
                       method_points = JInt 15, logic_points = JInt 20\<rparr>\<rparr>
   \<and> response.score
         \<lparr>response.score = JInt 60,
          breakdown = \<lparr>breakdown.score = JInt 60, motive_points = JInt 15,
                       method_points = JInt 15, logic_points = JInt 20\<rparr>\<rparr>
       = breakdown.score (breakdown
         \<lparr>response.score = JInt 60,
          breakdown = \<lparr>breakdown.score = JInt 60, motive_points = JInt 15,
                       method_points = JInt 15, logic_points = JInt 20\<rparr>\<rparr>)\<close>
proof -
  have returned:
    \<open>fst (score_reasoning example_config id (plain_only (Some ''{"score": 60}'')) example_request) =
       Inr \<lparr>response.score = JInt 60,
            breakdown = \<lparr>breakdown.score = JInt 60, motive_points = JInt 15,
                         method_points = JInt 15, logic_points = JInt 20\<rparr>\<rparr>\<close>
    using falls_back_result [OF falls_back_plain_only, of \<open>Some ''{"score": 60}''\<close>]
      tier_b_partial_object [of "int_max_str_digits example_config"]
    by (simp add: result_dict_def)
  from returned score_equals_breakdown_score [OF returned] show ?thesis by blast
qed

lemma tier_c_d_numeric:
  "tier_c_d lim (Some text) = Inr r \<Longrightarrow> numeric_result r"
  by (auto simp: tier_c_d_def Let_def result_dict_def numeric_result_def numeric_def
           split: option.splits)

lemma tier_c_d_text_returns:
  "\<exists>r. tier_c_d lim (Some text) = Inr r"
  by (simp add: tier_c_d_def Let_def split: option.splits)

lemma tier_b_string_score:
  \<open>tier_b lim (Some ''{"score": "high"}'')
     = Some (result_dict (JStr (ustr ''high'')) (JInt 15) (JInt 15) (JInt 20))\<close>
  by code_simp

lemma tier_b_nan_score:
  \<open>tier_b lim (Some ''{"score": NaN}'')
     = Some (result_dict (JFloat ''NaN'') (JInt 15) (JInt 15) (JInt 20))\<close>
  by code_simp

text \<open>
  C7. The claim: no parsing or response-shape failure makes the score endpoint answer
  with an error, the tier chain always yields a numeric result, and an exception
  outside the chain gives a response 500 with its message. The handler breaks it on
  three replies of the plain call, each after a failed structured call. On the text
  \<open>{"score": "high"}\<close> Tier B returns the string as the score, where Tier A returns
  checked integers and Tier C converts and clamps. On the text \<open>{"score": NaN}\<close> it
  returns the float \<open>nan\<close>, a value that JSON cannot carry. On a completion whose
  content is \<open>None\<close> the call of \<open>strip\<close> raises outside the inner \<open>try\<close>, and the
  caller gets the response 500.
\<close>

theorem score_fallback_failing_inputs:
  \<open>fst (score_reasoning example_config id (plain_only (Some ''{"score": "high"}''))
          example_request) =
     Inr \<lparr>response.score = JStr (ustr ''high''),
          breakdown = \<lparr>breakdown.score = JStr (ustr ''high''), motive_points = JInt 15,
                       method_points = JInt 15, logic_points = JInt 20\<rparr>\<rparr>
   \<and> \<not> numeric (JStr (ustr ''high''))
   \<and> fst (score_reasoning example_config id (plain_only (Some ''{"score": NaN}''))
          example_request) =
     Inr \<lparr>response.score = JFloat ''NaN'',
          breakdown = \<lparr>breakdown.score = JFloat ''NaN'', motive_points = JInt 15,
                       method_points = JInt 15, logic_points = JInt 20\<rparr>\<rparr>
   \<and> fst (score_reasoning example_config id (plain_only None) example_request) =
     Inl (HTTPException 500
            (''Error scoring reasoning: '' @ quoted ''NoneType''
             @ '' object has no attribute '' @ quoted ''strip''))\<close>
proof -
  have text_score:
    \<open>fst (score_reasoning example_config id (plain_only (Some ''{"score": "high"}''))
          example_request) =
     Inr \<lparr>response.score = JStr (ustr ''high''),
          breakdown = \<lparr>breakdown.score = JStr (ustr ''high''), motive_points = JInt 15,
                       method_points = JInt 15, logic_points = JInt 20\<rparr>\<rparr>\<close>
    using falls_back_result [OF falls_back_plain_only, of \<open>Some ''{"score": "high"}''\<close>]
      tier_b_string_score [of "int_max_str_digits example_config"]
    by (simp add: result_dict_def)
  have no_number: "\<not> numeric (JStr (ustr ''high''))"
    by (simp add: numeric_def)
  have nan_score:
    \<open>fst (score_reasoning example_config id (plain_only (Some ''{"score": NaN}''))
          example_request) =
     Inr \<lparr>response.score = JFloat ''NaN'',
          breakdown = \<lparr>breakdown.score = JFloat ''NaN'', motive_points = JInt 15,
                       method_points = JInt 15, logic_points = JInt 20\<rparr>\<rparr>\<close>
    using falls_back_result [OF falls_back_plain_only, of \<open>Some ''{"score": NaN}''\<close>]
      tier_b_nan_score [of "int_max_str_digits example_config"]
    by (simp add: result_dict_def)
  have no_content:
    "fst (score_reasoning example_config id (plain_only None) example_request) =
     Inl (HTTPException 500
            (''Error scoring reasoning: '' @ quoted ''NoneType''
             @ '' object has no attribute '' @ quoted ''strip''))"
    using falls_back_result [OF falls_back_plain_only, of None]
    by (simp add: tier_b_def tier_c_d_def)
  from text_score no_number nan_score no_content show ?thesis by (intro conjI)
qed

text \<open>
  What the handler does guarantee. A request that reaches the fallback with a text
  content gets a dict from the handler, and its five values are numbers whenever Tier
  B gave no result (Tiers C and D); a parsed result of Tier A gives a dict of numbers
  too. The handler raises an \<open>HTTPException\<close> with status 500 and the detail
  \<open>"Error scoring reasoning: "\<close> followed by the exception message when, after Tier A
  failed, the plain call raises, its completion has no choice, or the content of its
  first choice is \<open>None\<close>.
\<close>

theorem score_error_behaviour:
  "(falls_back cfg str_of client request (Some text) \<longrightarrow>
      (\<exists>r. fst (score_reasoning cfg str_of client request) = Inr r
           \<and> (tier_b (int_max_str_digits cfg) (Some text) = None \<longrightarrow> numeric_result r)))
   \<and> (is_correct request \<longrightarrow> 20 \<le> length (reasoning request) \<longrightarrow>
        tier_a (parse client (SCORING_MODEL cfg) (structured_messages str_of request))
          = Some result \<longrightarrow>
        (\<exists>r. fst (score_reasoning cfg str_of client request) = Inr r \<and> numeric_result r))
   \<and> (is_correct request \<longrightarrow> 20 \<le> length (reasoning request) \<longrightarrow>
        tier_a (parse client (SCORING_MODEL cfg) (structured_messages str_of request))
          = None \<longrightarrow>
        create client (SCORING_MODEL cfg) (fallback_messages str_of request) = Raises e \<longrightarrow>
        fst (score_reasoning cfg str_of client request) =
          Inl (HTTPException 500 (''Error scoring reasoning: '' @ e)))
   \<and> (is_correct request \<longrightarrow> 20 \<le> length (reasoning request) \<longrightarrow>
        tier_a (parse client (SCORING_MODEL cfg) (structured_messages str_of request))
          = None \<longrightarrow>
        create client (SCORING_MODEL cfg) (fallback_messages str_of request) = Returns [] \<longrightarrow>
        fst (score_reasoning cfg str_of client request) =
          Inl (HTTPException 500 ''Error scoring reasoning: list index out of range''))
   \<and> (falls_back cfg str_of client request None \<longrightarrow>
        fst (score_reasoning cfg str_of client request) =
          Inl (HTTPException 500
                 (''Error scoring reasoning: '' @ quoted ''NoneType''
                  @ '' object has no attribute '' @ quoted ''strip'')))"
proof (intro conjI impI)
  assume fb: "falls_back cfg str_of client request (Some text)"
  show "\<exists>r. fst (score_reasoning cfg str_of client request) = Inr r
           \<and> (tier_b (int_max_str_digits cfg) (Some text) = None \<longrightarrow> numeric_result r)"
  proof (cases "tier_b (int_max_str_digits cfg) (Some text)")
    case None
    obtain r where r: "tier_c_d (int_max_str_digits cfg) (Some text) = Inr r"
      using tier_c_d_text_returns by blast
    with falls_back_result [OF fb] None tier_c_d_numeric [OF r] show ?thesis by simp
  next
    case (Some r)
    with falls_back_result [OF fb] show ?thesis by simp
  qed
next
  assume "is_correct request" "20 \<le> length (reasoning request)"
    "tier_a (parse client (SCORING_MODEL cfg) (structured_messages str_of request)) = Some result"
  then show "\<exists>r. fst (score_reasoning cfg str_of client request) = Inr r \<and> numeric_result r"
    by (auto simp: score_reasoning_def Let_def result_dict_def numeric_result_def numeric_def)
next
  assume "is_correct request" "20 \<le> length (reasoning request)"
    "tier_a (parse client (SCORING_MODEL cfg) (structured_messages str_of request)) = None"
    "create client (SCORING_MODEL cfg) (fallback_messages str_of request) = Raises e"
  then show "fst (score_reasoning cfg str_of client request) =
          Inl (HTTPException 500 (''Error scoring reasoning: '' @ e))"
    by (auto simp: score_reasoning_def Let_def fallback_def)
next
  assume "is_correct request" "20 \<le> length (reasoning request)"
    "tier_a (parse client (SCORING_MODEL cfg) (structured_messages str_of request)) = None"
    "create client (SCORING_MODEL cfg) (fallback_messages str_of request) = Returns []"
  then show "fst (score_reasoning cfg str_of client request) =
          Inl (HTTPException 500 ''Error scoring reasoning: list index out of range'')"
    by (auto simp: score_reasoning_def Let_def fallback_def)
next
  assume fb: "falls_back cfg str_of client request None"
  from falls_back_result [OF fb]
  show "fst (score_reasoning cfg str_of client request) =
          Inl (HTTPException 500
                 (''Error scoring reasoning: '' @ quoted ''NoneType''
                  @ '' object has no attribute '' @ quoted ''strip''))"
    by (simp add: tier_b_def tier_c_d_def)
qed

theorem score_error_behaviour_witness:
  "falls_back example_config id (plain_only (Some ''not a number'')) example_request
     (Some ''not a number'')
   \<and> tier_b (int_max_str_digits example_config) (Some ''not a number'') = None
   \<and> fst (score_reasoning example_config id (plain_only (Some ''not a number'')) example_request)
       = Inr (result_dict (JInt 50) (JInt 15) (JInt 15) (JInt 20))
   \<and> numeric_result (result_dict (JInt 50) (JInt 15) (JInt 15) (JInt 20))
   \<and> is_correct example_request \<and> 20 \<le> length (reasoning example_request)
   \<and> tier_a (parse (structured_only
          \<lparr>ReasoningScore.score = 85, motive_points = 25, method_points = 28, logic_points = 32\<rparr>)
          (SCORING_MODEL example_config) (structured_messages id example_request))
       = Some \<lparr>ReasoningScore.score = 85, motive_points = 25, method_points = 28, logic_points = 32\<rparr>
   \<and> fst (score_reasoning example_config id (structured_only
          \<lparr>ReasoningScore.score = 85, motive_points = 25, method_points = 28, logic_points = 32\<rparr>)
          example_request)
       = Inr (result_dict (JInt 85) (JInt 25) (JInt 28) (JInt 32))
   \<and> numeric_result (result_dict (JInt 85) (JInt 25) (JInt 28) (JInt 32))
   \<and> tier_a (parse (unreachable ''Connection error.'') (SCORING_MODEL example_config)
          (structured_messages id example_request)) = None
   \<and> create (unreachable ''Connection error.'') (SCORING_MODEL example_config)
          (fallback_messages id example_request) = Raises ''Connection error.''
   \<and> fst (score_reasoning example_config id (unreachable ''Connection error.'') example_request)
       = Inl (HTTPException 500 ''Error scoring reasoning: Connection error.'')
   \<and> tier_a (parse (streaming ([], None)) (SCORING_MODEL example_config)
          (structured_messages id example_request)) = None
   \<and> create (streaming ([], None)) (SCORING_MODEL example_config)
          (fallback_messages id example_request) = Returns []
   \<and> fst (score_reasoning example_config id (streaming ([], None)) example_request)
       = Inl (HTTPException 500 ''Error scoring reasoning: list index out of range'')
   \<and> falls_back example_config id (plain_only None) example_request None
   \<and> fst (score_reasoning example_config id (plain_only None) example_request)
       = Inl (HTTPException 500
               (''Error scoring reasoning: '' @ quoted ''NoneType''
                @ '' object has no attribute '' @ quoted ''strip''))"
proof -
  let ?good = "\<lparr>ReasoningScore.score = 85, motive_points = 25, method_points = 28,
                 logic_points = 32\<rparr>"
  have fb: "falls_back example_config id (plain_only (Some ''not a number'')) example_request
              (Some ''not a number'')"
    by (rule falls_back_plain_only)
  have nb: "tier_b (int_max_str_digits example_config) (Some ''not a number'') = None"
    by code_simp
  have nn: "py_int (int_max_str_digits example_config) (py_strip ''not a number'') = None"
    by code_simp
  have correct: "is_correct example_request" and long: "20 \<le> length (reasoning example_request)"
    by (simp_all add: example_request_def)
  have parsed: "tier_a (parse (structured_only ?good) (SCORING_MODEL example_config)
                  (structured_messages id example_request)) = Some ?good"
    by (simp add: structured_only_def tier_a_def)
  have down: "tier_a (parse (unreachable ''Connection error.'') (SCORING_MODEL example_config)
                (structured_messages id example_request)) = None"
    and raises: "create (unreachable ''Connection error.'') (SCORING_MODEL example_config)
                   (fallback_messages id example_request) = Raises ''Connection error.''"
    by (simp_all add: unreachable_def tier_a_def)
  have unsupported: "tier_a (parse (streaming ([], None)) (SCORING_MODEL example_config)
                       (structured_messages id example_request)) = None"
    and empty: "create (streaming ([], None)) (SCORING_MODEL example_config)
                  (fallback_messages id example_request) = Returns []"
    by (simp_all add: streaming_def tier_a_def)
  have fn: "falls_back example_config id (plain_only None) example_request None"
    by (rule falls_back_plain_only)
  note t1 = score_error_behaviour [of example_config id "plain_only (Some ''not a number'')"
      example_request "''not a number''"]
  note t2 = score_error_behaviour [of example_config id "structured_only ?good"
      example_request _ ?good]
  note t3 = score_error_behaviour [of example_config id "unreachable ''Connection error.''"
      example_request _ _ "''Connection error.''"]
  note t4 = score_error_behaviour [of example_config id "streaming ([], None)" example_request]
  note t5 = score_error_behaviour [of example_config id "plain_only None" example_request]
  from t1 fb nb obtain r1 where
    r1: "fst (score_reasoning example_config id (plain_only (Some ''not a number'')) example_request)
           = Inr r1" and n1: "numeric_result r1"
    by blast
  have "fst (score_reasoning example_config id (plain_only (Some ''not a number'')) example_request)
          = Inr (result_dict (JInt 50) (JInt 15) (JInt 15) (JInt 20))"
    using falls_back_result [OF fb] nb nn by (simp add: tier_c_d_def)
  with r1 n1 have c1: "fst (score_reasoning example_config id (plain_only (Some ''not a number''))
                             example_request)
          = Inr (result_dict (JInt 50) (JInt 15) (JInt 15) (JInt 20))"
    and c1': "numeric_result (result_dict (JInt 50) (JInt 15) (JInt 15) (JInt 20))"
    by simp_all
  from t2 correct long parsed obtain r2 where
    r2: "fst (score_reasoning example_config id (structured_only ?good) example_request) = Inr r2"
    and n2: "numeric_result r2"
    by blast
  have "fst (score_reasoning example_config id (structured_only ?good) example_request)
          = Inr (result_dict (JInt 85) (JInt 25) (JInt 28) (JInt 32))"
    using correct long parsed by (auto simp: score_reasoning_def Let_def)
  with r2 n2 have c2: "fst (score_reasoning example_config id (structured_only ?good) example_request)
          = Inr (result_dict (JInt 85) (JInt 25) (JInt 28) (JInt 32))"
    and c2': "numeric_result (result_dict (JInt 85) (JInt 25) (JInt 28) (JInt 32))"
    by simp_all
  from t3 correct long down raises
  have c3: "fst (score_reasoning example_config id (unreachable ''Connection error.'') example_request)
       = Inl (HTTPException 500 (''Error scoring reasoning: '' @ ''Connection error.''))"
    by blast
  from t4 correct long unsupported empty
  have c4: "fst (score_reasoning example_config id (streaming ([], None)) example_request)
       = Inl (HTTPException 500 ''Error scoring reasoning: list index out of range'')"
    by blast
  from t5 fn
  have c5: "fst (score_reasoning example_config id (plain_only None) example_request)
       = Inl (HTTPException 500
               (''Error scoring reasoning: '' @ quoted ''NoneType''
                @ '' object has no attribute '' @ quoted ''strip''))"
    by blast
  from c3 have c3': "fst (score_reasoning example_config id (unreachable ''Connection error.'')
                          example_request)
       = Inl (HTTPException 500 ''Error scoring reasoning: Connection error.'')"
    by simp
  from fb nb c1 c1' correct long parsed c2 c2' down raises c3' unsupported empty c4 fn c5
  show ?thesis by (intro conjI)
qed

text \<open>
  C8. A request that reaches the model always gets its prompt built and sent: the first
  call is the structured one, a second call, if any, is the plain one, and the user
  message of each is the prompt, in which a key missing from \<open>solution\<close> is rendered as
  \<open>Unknown\<close> and a key present as the text of its value. No error comes from building
  the prompt: when the structured call gives a parsed result, that result is returned.
\<close>

theorem prompt_renders_missing_keys:
  \<open>is_correct request \<Longrightarrow> 20 \<le> length (reasoning request) \<Longrightarrow>
   prompt =
     ''THE CORRECT SOLUTION:\<newline>- Culprit: ''
     @ (if ''culprit'' \<in> dom (solution request)
        then str_of (the (solution request ''culprit'')) else ''Unknown'')
     @ ''\<newline>- Method: ''
     @ (if ''method'' \<in> dom (solution request)
        then str_of (the (solution request ''method'')) else ''Unknown'')
     @ ''\<newline>- Motive: ''
     @ (if ''motive'' \<in> dom (solution request)
        then str_of (the (solution request ''motive'')) else ''Unknown'')
     @ ''\<newline>\<newline>THE DETECTIVE'S REASONING:\<newline>"''
     @ reasoning request
     @ ''"\<newline>\<newline>Evaluate the reasoning and provide a structured score.'' \<Longrightarrow>
   (snd (score_reasoning cfg str_of client request) =
      [ParseCall (SCORING_MODEL cfg) [(System, structured_system_prompt), (User, prompt)]]
    \<or> snd (score_reasoning cfg str_of client request) =
      [ParseCall (SCORING_MODEL cfg) [(System, structured_system_prompt), (User, prompt)],
       CreateCall (SCORING_MODEL cfg) [(System, fallback_system_prompt), (User, prompt)]])
   \<and> (\<forall>result.
        tier_a (parse client (SCORING_MODEL cfg)
                  [(System, structured_system_prompt), (User, prompt)]) = Some result \<longrightarrow>
        fst (score_reasoning cfg str_of client request) =
          Inr \<lparr>response.score = JInt (ReasoningScore.score result),
               breakdown =
                 \<lparr>breakdown.score = JInt (ReasoningScore.score result),
                  motive_points = JInt (ReasoningScore.motive_points result),
                  method_points = JInt (ReasoningScore.method_points result),
                  logic_points = JInt (ReasoningScore.logic_points result)\<rparr>\<rparr>)\<close>
proof -
  assume correct: "is_correct request" and long: "20 \<le> length (reasoning request)"
    and prompt: \<open>prompt =
     ''THE CORRECT SOLUTION:\<newline>- Culprit: ''
     @ (if ''culprit'' \<in> dom (solution request)
        then str_of (the (solution request ''culprit'')) else ''Unknown'')
     @ ''\<newline>- Method: ''
     @ (if ''method'' \<in> dom (solution request)
        then str_of (the (solution request ''method'')) else ''Unknown'')
     @ ''\<newline>- Motive: ''
     @ (if ''motive'' \<in> dom (solution request)
        then str_of (the (solution request ''motive'')) else ''Unknown'')
     @ ''\<newline>\<newline>THE DETECTIVE'S REASONING:\<newline>"''
     @ reasoning request
     @ ''"\<newline>\<newline>Evaluate the reasoning and provide a structured score.''\<close>
  have get: "format_get str_of (solution request) k ''Unknown'' =
      (if k \<in> dom (solution request) then str_of (the (solution request k)) else ''Unknown'')"
    for k
    by (auto simp: format_get_def split: option.splits)
  have built: "build_prompt str_of request = prompt"
    unfolding build_prompt_def get prompt by (rule refl)
  from long have nonempty: "reasoning request \<noteq> []" by auto
  show ?thesis
    using correct long nonempty
    by (auto simp: score_reasoning_def Let_def structured_messages_def fallback_messages_def
          built result_dict_def split: option.splits sum.splits)
qed

theorem prompt_renders_missing_keys_witness:
  \<open>(let request = example_request\<lparr>solution := [''culprit'' \<mapsto> ''The butler'']\<rparr>;
        client = structured_only
          \<lparr>ReasoningScore.score = 85, motive_points = 25, method_points = 28, logic_points = 32\<rparr>;
        prompt =
          ''THE CORRECT SOLUTION:\<newline>- Culprit: The butler\<newline>- Method: Unknown\<newline>- Motive: Unknown\<newline>\<newline>THE DETECTIVE'S REASONING:\<newline>"The butler did it with the candlestick"\<newline>\<newline>Evaluate the reasoning and provide a structured score.''
    in is_correct request \<and> 20 \<le> length (reasoning request)
       \<and> snd (score_reasoning example_config (\<lambda>v. v) client request) =
           [ParseCall ''openai/gpt-4o-mini'' [(System, structured_system_prompt), (User, prompt)]]
       \<and> fst (score_reasoning example_config (\<lambda>v. v) client request) =
           Inr \<lparr>response.score = JInt 85,
                breakdown = \<lparr>breakdown.score = JInt 85, motive_points = JInt 25,
                             method_points = JInt 28, logic_points = JInt 32\<rparr>\<rparr>)\<close>
proof -
  let ?request = "example_request\<lparr>solution := [''culprit'' \<mapsto> ''The butler'']\<rparr>"
  let ?good = "\<lparr>ReasoningScore.score = 85, motive_points = 25, method_points = 28,
                 logic_points = 32\<rparr>"
  let ?prompt = \<open>''THE CORRECT SOLUTION:\<newline>- Culprit: The butler\<newline>- Method: Unknown\<newline>- Motive: Unknown\<newline>\<newline>THE DETECTIVE'S REASONING:\<newline>"The butler did it with the candlestick"\<newline>\<newline>Evaluate the reasoning and provide a structured score.''\<close>
  have correct: "is_correct ?request" and long: "20 \<le> length (reasoning ?request)"
    by (simp_all add: example_request_def)
  have prompt: \<open>?prompt =
     ''THE CORRECT SOLUTION:\<newline>- Culprit: ''
     @ (if ''culprit'' \<in> dom (solution ?request)
        then (\<lambda>v. v) (the (solution ?request ''culprit'')) else ''Unknown'')
     @ ''\<newline>- Method: ''
     @ (if ''method'' \<in> dom (solution ?request)
        then (\<lambda>v. v) (the (solution ?request ''method'')) else ''Unknown'')
     @ ''\<newline>- Motive: ''
     @ (if ''motive'' \<in> dom (solution ?request)
        then (\<lambda>v. v) (the (solution ?request ''motive'')) else ''Unknown'')
     @ ''\<newline>\<newline>THE DETECTIVE'S REASONING:\<newline>"''
     @ reasoning ?request
     @ ''"\<newline>\<newline>Evaluate the reasoning and provide a structured score.''\<close>
    by (simp add: example_request_def)
  note sent = prompt_renders_missing_keys [OF correct long prompt,
      of example_config "structured_only ?good"]
  have parsed: "tier_a (parse (structured_only ?good) (SCORING_MODEL example_config)
                  [(System, structured_system_prompt), (User, ?prompt)]) = Some ?good"
    by (simp add: structured_only_def tier_a_def)
  have one: "length (snd (score_reasoning example_config (\<lambda>v. v) (structured_only ?good) ?request)) = 1"
    using correct long
    by (auto simp: score_reasoning_def Let_def structured_only_def tier_a_def)
  from sent one
  have calls: "snd (score_reasoning example_config (\<lambda>v. v) (structured_only ?good) ?request) =
      [ParseCall (SCORING_MODEL example_config)
         [(System, structured_system_prompt), (User, ?prompt)]]"
    by auto
  from sent parsed
  have returned: "fst (score_reasoning example_config (\<lambda>v. v) (structured_only ?good) ?request) =
      Inr \<lparr>response.score = JInt (ReasoningScore.score ?good),
           breakdown =
             \<lparr>breakdown.score = JInt (ReasoningScore.score ?good),
              motive_points = JInt (ReasoningScore.motive_points ?good),
              method_points = JInt (ReasoningScore.method_points ?good),
              logic_points = JInt (ReasoningScore.logic_points ?good)\<rparr>\<rparr>"
    by blast
  from correct long calls returned show ?thesis
    unfolding Let_def by (simp add: example_config_def)
qed

section \<open>Properties of the chat handler\<close>



text \<open>
  C9. The messages sent upstream are the system prompt, as a system message, followed
  by the messages of the request in their order, each with its role and content. With
  no message the system message alone is sent, and the request fails only when the
  upstream call itself raises: when it returns a stream the handler returns the
  streaming response.
\<close>

theorem chat_messages_sent:
  "snd (chat cfg client request) =
     [StreamCall (DEFAULT_MODEL cfg)
        ((System, system_prompt request)
         # map (\<lambda>msg. (role msg, content msg)) (messages request))]
   \<and> (messages request = [] \<longrightarrow>
        snd (chat cfg client request) =
          [StreamCall (DEFAULT_MODEL cfg) [(System, system_prompt request)]]
        \<and> ((\<exists>e. fst (chat cfg client request) = Inl e)
             \<longleftrightarrow> (\<exists>m. create_stream client (DEFAULT_MODEL cfg)
                               [(System, system_prompt request)] = Raises m))
        \<and> (\<forall>s. create_stream client (DEFAULT_MODEL cfg)
                     [(System, system_prompt request)] = Returns s \<longrightarrow>
               fst (chat cfg client request) =
                 Inr (StreamingResponse (generate s) ''text/plain'')))"
  by (auto simp: chat_def Let_def split: outcome.splits)

theorem chat_messages_sent_witness:
  "snd (chat example_config (streaming ([[Some ''Hello'']], None)) example_chat) =
     [StreamCall ''anthropic/claude-3.5-sonnet''
        [(System, ''You are the butler.''),
         (User, ''Where were you last night?''),
         (Assistant, ''In the pantry.''),
         (User, ''Alone?'')]]
   \<and> messages (example_chat\<lparr>messages := []\<rparr>) = []
   \<and> snd (chat example_config (streaming ([[Some ''Hello'']], None))
             (example_chat\<lparr>messages := []\<rparr>)) =
       [StreamCall ''anthropic/claude-3.5-sonnet'' [(System, ''You are the butler.'')]]
   \<and> create_stream (streaming ([[Some ''Hello'']], None)) (DEFAULT_MODEL example_config)
         [(System, system_prompt (example_chat\<lparr>messages := []\<rparr>))]
       = Returns ([[Some ''Hello'']], None)
   \<and> fst (chat example_config (streaming ([[Some ''Hello'']], None))
             (example_chat\<lparr>messages := []\<rparr>)) =
       Inr (StreamingResponse ([''Hello''], None) ''text/plain'')"
proof -
  let ?client = "streaming ([[Some ''Hello'']], None)"
  let ?empty = "example_chat\<lparr>messages := []\<rparr>"
  note full = chat_messages_sent [of example_config ?client example_chat]
  note none = chat_messages_sent [of example_config ?client ?empty]
  have no_messages: "messages ?empty = []" by simp
  have opened: "create_stream ?client (DEFAULT_MODEL example_config)
                  [(System, system_prompt ?empty)] = Returns ([[Some ''Hello'']], None)"
    by (simp add: streaming_def)
  from full have first: "snd (chat example_config ?client example_chat) =
     [StreamCall ''anthropic/claude-3.5-sonnet''
        [(System, ''You are the butler.''),
         (User, ''Where were you last night?''),
         (Assistant, ''In the pantry.''),
         (User, ''Alone?'')]]"
    by (simp add: example_chat_def example_config_def)
  from none no_messages have "snd (chat example_config ?client ?empty) =
       [StreamCall (DEFAULT_MODEL example_config) [(System, system_prompt ?empty)]]"
    by blast
  then have second: "snd (chat example_config ?client ?empty) =
       [StreamCall ''anthropic/claude-3.5-sonnet'' [(System, ''You are the butler.'')]]"
    by (simp add: example_chat_def example_config_def)
  from none no_messages opened
  have "fst (chat example_config ?client ?empty) =
       Inr (StreamingResponse (generate ([[Some ''Hello'']], None)) ''text/plain'')"
    by blast
  then have third: "fst (chat example_config ?client ?empty) =
       Inr (StreamingResponse ([''Hello''], None) ''text/plain'')"
    by (simp add: generate_def)
  from first no_messages second opened third show ?thesis by (intro conjI)
qed




end
